theory Spec2Isabelle
  imports Main "HOL-Library.Word" "HOL-Library.Monad_Syntax"
begin

section \<open>Byte strings, hashes and signatures\<close>

type_synonym byte = "8 word"
type_synonym bytes = "byte list"
type_synonym address = "160 word"
type_synonym uint256 = "256 word"
type_synonym bytes32 = "256 word"

text \<open>
  The cryptographic primitives are not code of the repository (ethers' and the EVM's
  \<open>keccak256\<close>, OpenZeppelin's \<open>ECDSA.recover\<close>): every function below takes them as a
  parameter. \<open>ECDSA_recover\<close> returns \<open>None\<close> where the library reverts with one of its
  own errors (wrong signature length, high \<open>s\<close>, recovery of the zero address).
\<close>

record crypto =
  keccak256 :: "bytes \<Rightarrow> bytes32"
  ECDSA_recover :: "bytes32 \<Rightarrow> bytes \<Rightarrow> address option"

text \<open>Big-endian bytes of a number, on a fixed width, and the number of a byte string.\<close>

fun be_bytes :: "nat \<Rightarrow> nat \<Rightarrow> bytes" where
  "be_bytes 0 n = []"
| "be_bytes (Suc k) n = be_bytes k (n div 256) @ [word_of_nat (n mod 256)]"

definition be_nat :: "bytes \<Rightarrow> nat" where
  "be_nat bs = foldl (\<lambda>acc b. acc * 256 + unat b) 0 bs"

section \<open>The authorization hash (delegate.ts, delegate\_and\_execute.ts)\<close>

subsection \<open>The ethers functions the scripts call\<close>

text \<open>
  A hex string \<open>0x...\<close> is the list of the values of its digits (each below 16), most
  significant first; \<open>'0x'\<close> is the empty list.

  \<open>toBeHex\<close> (ethers v6, no width): \<open>getUint\<close> refuses a negative value; the value is
  written by \<open>toString(16)\<close> and gets one leading \<open>0\<close> when the number of digits is odd.
\<close>

fun hexDigits :: "nat \<Rightarrow> nat list" where
  "hexDigits n = (if n < 16 then [n] else hexDigits (n div 16) @ [n mod 16])"

declare hexDigits.simps [simp del]

definition toBeHex :: "int \<Rightarrow> nat list option" where
  "toBeHex v =
     (if v < 0 then None
      else let result = hexDigits (nat v)
           in Some (if length result mod 2 \<noteq> 0 then 0 # result else result))"

text \<open>
  \<open>toBeHex\<close> on a JavaScript number, which the scripts' \<open>authNonce\<close> is (the chain id
  is a bigint): \<open>getBigInt\<close> refuses a number beyond the safe integers, above
  \<open>2^53 - 1\<close> or below \<open>-(2^53 - 1)\<close>, with \<open>overflow\<close>. The numbers here are integers.
\<close>

definition toBeHex_number :: "int \<Rightarrow> nat list option" where
  "toBeHex_number v = (if v < - (2 ^ 53 - 1) \<or> 2 ^ 53 - 1 < v then None else toBeHex v)"


text \<open>\<open>getBytes\<close>: two digits a byte; a string with an odd number of digits is refused.\<close>

fun getBytes :: "nat list \<Rightarrow> bytes option" where
  "getBytes [] = Some []"
| "getBytes [d] = None"
| "getBytes (hi # lo # ds) = map_option ((#) (word_of_nat (hi * 16 + lo))) (getBytes ds)"

text \<open>\<open>encodeRlp\<close> (ethers' \<open>_encode\<close>), on a hex string or an array of items.\<close>

datatype rlpData = Hex "nat list" | Items "rlpData list"

fun arrayifyInteger :: "nat \<Rightarrow> bytes" where
  "arrayifyInteger v =
     (if v = 0 then [] else arrayifyInteger (v div 256) @ [word_of_nat (v mod 256)])"

declare arrayifyInteger.simps [simp del]

fun those_bytes :: "bytes option list \<Rightarrow> bytes option" where
  "those_bytes [] = Some []"
| "those_bytes (None # xs) = None"
| "those_bytes (Some b # xs) = map_option ((@) b) (those_bytes xs)"

fun encodeRlp :: "rlpData \<Rightarrow> bytes option" where
  "encodeRlp (Items children) =
     (case those_bytes (map encodeRlp children) of
        None \<Rightarrow> None
      | Some payload \<Rightarrow>
          if length payload \<le> 55 then Some (word_of_nat (0xc0 + length payload) # payload)
          else let len = arrayifyInteger (length payload)
               in Some (word_of_nat (0xf7 + length len) # len @ payload))"
| "encodeRlp (Hex object) =
     (case getBytes object of
        None \<Rightarrow> None
      | Some data \<Rightarrow>
          if length data = 1 \<and> data ! 0 \<le> 0x7f then Some data
          else if length data \<le> 55 then Some (word_of_nat (0x80 + length data) # data)
          else let len = arrayifyInteger (length data)
               in Some (word_of_nat (0xb7 + length len) # len @ data))"

subsection \<open>The scripts\<close>

text \<open>
  \<open>messageHash\<close> of delegate.ts, lines 46 to 55 (and of the second script of
  delegate\_and\_execute.ts, and the \<open>hash\<close> of its first script, lines 60 to 67): both
  integers are guarded, a zero is the empty string \<open>'0x'\<close>. The argument of \<open>keccak256\<close>
  is named on its own.
\<close>

definition authorizationMessage :: "int \<Rightarrow> nat list \<Rightarrow> int \<Rightarrow> bytes option" where
  "authorizationMessage chainId delegatorAddr authNonce =
     do {
       c \<leftarrow> (if chainId \<noteq> 0 then toBeHex chainId else Some []);
       n \<leftarrow> (if authNonce \<noteq> 0 then toBeHex_number authNonce else Some []);
       rlpEncoded \<leftarrow> encodeRlp (Items [Hex c, Hex delegatorAddr, Hex n]);
       Some ([0x05] @ rlpEncoded)
     }"




subsection \<open>The authorization hash as the specification words it\<close>








section \<open>The batch executor (contracts/batchDelegatorWithCallers.sol)\<close>

subsection \<open>Data\<close>

record call =
  target :: address
  val :: uint256
  data :: bytes

text \<open>
  The three signed requests share \<open>nonce\<close>, \<open>deadline\<close> and \<open>signature\<close>; each struct
  extends them with its payload.
\<close>

record signed =
  nonce :: uint256
  deadline :: uint256
  signature :: bytes

record signedBatch = signed +
  calls :: "call list"

record signedAdminChange = signed +
  newAdmin :: address

record signedCallerUpdate = signed +
  callers :: "address list"
  isAdding :: "bool list"

record executorState =
  admin :: address
  allowedCallers :: "address \<Rightarrow> bool"
  usedNonces :: "uint256 \<Rightarrow> bool"
  initialized :: bool

datatype event =
  AdminChanged address address
| CallerUpdated address bool
| BatchExecuted address address "call list" "bytes list"
| BatchExecuted_unsigned address "call list" "bytes list"

datatype error =
  InvalidSignature
| DeadlineExpired
| NonceAlreadyUsed
| AlreadyInitialized
| NotAllowedCaller
| ArrayLengthMismatch
| RequireFailed string
| AbiDecodeFailed
| ECDSAFailed

text \<open>
  What one invocation can change: the contract's storage, the log of emitted events, and
  the world outside the contract that the forwarded calls act on (balances and the
  storage of the targets). A forwarded call \<open>c.target.call{value: c.value}(c.data)\<close> is a
  parameter: from the call and the world it gives \<open>ok\<close>, the return data and the world
  after the call. Forwarded calls that re-enter the executor are not modelled.
\<close>

record 'w chain =
  storage :: executorState
  logs :: "event list"
  world :: 'w

type_synonym 'w extcall = "call \<Rightarrow> 'w \<Rightarrow> bool \<times> bytes \<times> 'w"

record env =
  block_timestamp :: uint256
  msg_sender :: address
  address_this :: address

subsection \<open>ABI encoding and the hashes that are signed\<close>

definition abi_uint256 :: "uint256 \<Rightarrow> bytes" where
  "abi_uint256 v = be_bytes 32 (unat v)"

definition abi_address :: "address \<Rightarrow> bytes" where
  "abi_address a = be_bytes 32 (unat a)"

definition abi_bool :: "bool \<Rightarrow> bytes" where
  "abi_bool b = be_bytes 32 (if b then 1 else 0)"

definition abi_bytes :: "bytes \<Rightarrow> bytes" where
  "abi_bytes d = be_bytes 32 (length d) @ d @ replicate ((32 - length d mod 32) mod 32) 0"

definition abi_Call :: "call \<Rightarrow> bytes" where
  "abi_Call c = abi_address (target c) @ abi_uint256 (val c) @ be_bytes 32 96 @ abi_bytes (data c)"

fun abi_offsets :: "nat \<Rightarrow> bytes list \<Rightarrow> bytes" where
  "abi_offsets off [] = []"
| "abi_offsets off (e # es) = be_bytes 32 off @ abi_offsets (off + length e) es"

definition abi_Calls :: "call list \<Rightarrow> bytes" where
  "abi_Calls cs =
     (let es = map abi_Call cs
      in be_bytes 32 (length cs) @ abi_offsets (32 * length cs) es @ concat es)"

definition getBatchHash :: "crypto \<Rightarrow> call list \<Rightarrow> uint256 \<Rightarrow> uint256 \<Rightarrow> bytes32" where
  "getBatchHash K cs n d =
     keccak256 K (be_bytes 32 96 @ abi_uint256 n @ abi_uint256 d @ abi_Calls cs)"

definition getAdminChangeHash :: "crypto \<Rightarrow> address \<Rightarrow> uint256 \<Rightarrow> uint256 \<Rightarrow> bytes32" where
  "getAdminChangeHash K a n d = keccak256 K (abi_address a @ abi_uint256 n @ abi_uint256 d)"

definition getCallerUpdateHash ::
  "crypto \<Rightarrow> address list \<Rightarrow> bool list \<Rightarrow> uint256 \<Rightarrow> uint256 \<Rightarrow> bytes32" where
  "getCallerUpdateHash K cs bs n d =
     keccak256 K
       (be_bytes 32 128 @ be_bytes 32 (160 + 32 * length cs) @ abi_uint256 n @ abi_uint256 d
        @ be_bytes 32 (length cs) @ concat (map abi_address cs)
        @ be_bytes 32 (length bs) @ concat (map abi_bool bs))"

text \<open>
  \<open>MessageHashUtils.toEthSignedMessageHash\<close>: the hash of the 28 bytes
  \<open>"\x19Ethereum Signed Message:\n32"\<close> followed by the 32 bytes of the message hash.
\<close>

definition signedMessagePrefix :: bytes where
  "signedMessagePrefix =
     [0x19, 0x45, 0x74, 0x68, 0x65, 0x72, 0x65, 0x75, 0x6d, 0x20, 0x53, 0x69, 0x67, 0x6e,
      0x65, 0x64, 0x20, 0x4d, 0x65, 0x73, 0x73, 0x61, 0x67, 0x65, 0x3a, 0x0a, 0x33, 0x32]"

definition toEthSignedMessageHash :: "crypto \<Rightarrow> bytes32 \<Rightarrow> bytes32" where
  "toEthSignedMessageHash K messageHash =
     keccak256 K (signedMessagePrefix @ be_bytes 32 (unat messageHash))"

text \<open>
  \<open>abi.decode(ret, (bool))\<close>: reverts on fewer than 32 bytes and on a first word other
  than 0 and 1; bytes after the first word are not read.
\<close>

definition abi_decode_bool :: "bytes \<Rightarrow> bool option" where
  "abi_decode_bool ret =
     (if length ret < 32 then None
      else let w = be_nat (take 32 ret)
           in if w = 0 then Some False else if w = 1 then Some True else None)"

subsection \<open>The functions of the contract\<close>

definition markNonce :: "uint256 \<Rightarrow> 'w chain \<Rightarrow> 'w chain" where
  "markNonce n s = s\<lparr>storage := (storage s)\<lparr>usedNonces := (usedNonces (storage s))(n := True)\<rparr>\<rparr>"

definition emit :: "event \<Rightarrow> 'w chain \<Rightarrow> 'w chain" where
  "emit e s = s\<lparr>logs := logs s @ [e]\<rparr>"

definition initialize :: "address \<Rightarrow> 'w chain \<Rightarrow> error + unit \<times> 'w chain" where
  "initialize admin0 s =
     (if initialized (storage s) then Inl AlreadyInitialized
      else let s1 = s\<lparr>storage := (storage s)\<lparr>initialized := True\<rparr>\<rparr>;
               s2 = s1\<lparr>storage := (storage s1)\<lparr>admin := admin0\<rparr>\<rparr>
           in Inr ((), emit (AdminChanged 0 admin0) s2))"

definition setAdmin ::
  "crypto \<Rightarrow> env \<Rightarrow> signedAdminChange \<Rightarrow> 'w chain \<Rightarrow> error + unit \<times> 'w chain" where
  "setAdmin K E signedChange s =
     (if block_timestamp E > deadline signedChange then Inl DeadlineExpired
      else if usedNonces (storage s) (nonce signedChange) then Inl NonceAlreadyUsed
      else
        let s1 = markNonce (nonce signedChange) s;
            messageHash = getAdminChangeHash K (newAdmin signedChange) (nonce signedChange)
                            (deadline signedChange);
            ethSignedMessageHash = toEthSignedMessageHash K messageHash
        in case ECDSA_recover K ethSignedMessageHash (signature signedChange) of
             None \<Rightarrow> Inl ECDSAFailed
           | Some signer \<Rightarrow>
               if signer \<noteq> admin (storage s1) then Inl InvalidSignature
               else
                 let previousAdmin = admin (storage s1);
                     s2 = s1\<lparr>storage := (storage s1)\<lparr>admin := newAdmin signedChange\<rparr>\<rparr>
                 in Inr ((), emit (AdminChanged previousAdmin (newAdmin signedChange)) s2))"

text \<open>The loop of \<open>updateCallers\<close>; the two arrays have the same length when it runs.\<close>

fun setCallers :: "address list \<Rightarrow> bool list \<Rightarrow> 'w chain \<Rightarrow> 'w chain" where
  "setCallers (c # cs) (b # bs) s =
     setCallers cs bs
       (emit (CallerUpdated c b)
          (s\<lparr>storage := (storage s)\<lparr>allowedCallers := (allowedCallers (storage s))(c := b)\<rparr>\<rparr>))"
| "setCallers _ _ s = s"

definition updateCallers ::
  "crypto \<Rightarrow> env \<Rightarrow> signedCallerUpdate \<Rightarrow> 'w chain \<Rightarrow> error + unit \<times> 'w chain" where
  "updateCallers K E signedUpdate s =
     (if length (callers signedUpdate) \<noteq> length (isAdding signedUpdate)
      then Inl ArrayLengthMismatch
      else if block_timestamp E > deadline signedUpdate then Inl DeadlineExpired
      else if usedNonces (storage s) (nonce signedUpdate) then Inl NonceAlreadyUsed
      else
        let s1 = markNonce (nonce signedUpdate) s;
            messageHash = getCallerUpdateHash K (callers signedUpdate) (isAdding signedUpdate)
                            (nonce signedUpdate) (deadline signedUpdate);
            ethSignedMessageHash = toEthSignedMessageHash K messageHash
        in case ECDSA_recover K ethSignedMessageHash (signature signedUpdate) of
             None \<Rightarrow> Inl ECDSAFailed
           | Some signer \<Rightarrow>
               if signer \<noteq> admin (storage s1) then Inl InvalidSignature
               else Inr ((), setCallers (callers signedUpdate) (isAdding signedUpdate) s1))"

text \<open>
  The forwarding loop, the same in every variant of \<open>executeBatch\<close>: \<open>i\<close> is the index of
  the next call and \<open>results\<close> the array allocated before the loop.
\<close>

fun forwardCalls ::
  "'w extcall \<Rightarrow> call list \<Rightarrow> nat \<Rightarrow> bytes list \<Rightarrow> 'w \<Rightarrow> error + bytes list \<times> 'w" where
  "forwardCalls ext [] i results w = Inr (results, w)"
| "forwardCalls ext (c # cs) i results w =
     (case ext c w of
        (ok, ret, w') \<Rightarrow>
          if \<not> ok then Inl (RequireFailed ''BatchDelegator: call failed'')
          else if length ret > 0 then
            (case abi_decode_bool ret of
               None \<Rightarrow> Inl AbiDecodeFailed
             | Some success \<Rightarrow>
                 if \<not> success then Inl (RequireFailed ''BatchDelegator: call returned false'')
                 else forwardCalls ext cs (Suc i) (results[i := ret]) w')
          else forwardCalls ext cs (Suc i) (results[i := ret]) w')"

definition executeBatch ::
  "crypto \<Rightarrow> 'w extcall \<Rightarrow> env \<Rightarrow> signedBatch \<Rightarrow> 'w chain \<Rightarrow> error + bytes list \<times> 'w chain"
  where
  "executeBatch K ext E signedBatch s =
     (if block_timestamp E > deadline signedBatch then Inl DeadlineExpired
      else if usedNonces (storage s) (nonce signedBatch) then Inl NonceAlreadyUsed
      else
        let s1 = markNonce (nonce signedBatch) s;
            messageHash = getBatchHash K (calls signedBatch) (nonce signedBatch)
                            (deadline signedBatch);
            ethSignedMessageHash = toEthSignedMessageHash K messageHash
        in case ECDSA_recover K ethSignedMessageHash (signature signedBatch) of
             None \<Rightarrow> Inl ECDSAFailed
           | Some signer \<Rightarrow>
               if \<not> allowedCallers (storage s1) signer then Inl NotAllowedCaller
               else
                 let n = length (calls signedBatch)
                 in case forwardCalls ext (calls signedBatch) 0 (replicate n []) (world s1) of
                      Inl e \<Rightarrow> Inl e
                    | Inr (results, w') \<Rightarrow>
                        Inr (results,
                             emit (BatchExecuted signer (msg_sender E) (calls signedBatch) results)
                               (s1\<lparr>world := w'\<rparr>)))"

text \<open>
  The second contract of the file (lines 202 to 341): the signer of a batch must be the
  contract's own address.
\<close>

definition executeBatch_self ::
  "crypto \<Rightarrow> 'w extcall \<Rightarrow> env \<Rightarrow> signedBatch \<Rightarrow> 'w chain \<Rightarrow> error + bytes list \<times> 'w chain"
  where
  "executeBatch_self K ext E signedBatch s =
     (if block_timestamp E > deadline signedBatch then Inl DeadlineExpired
      else if usedNonces (storage s) (nonce signedBatch) then Inl NonceAlreadyUsed
      else
        let s1 = markNonce (nonce signedBatch) s;
            messageHash = getBatchHash K (calls signedBatch) (nonce signedBatch)
                            (deadline signedBatch);
            ethSignedMessageHash = toEthSignedMessageHash K messageHash
        in case ECDSA_recover K ethSignedMessageHash (signature signedBatch) of
             None \<Rightarrow> Inl ECDSAFailed
           | Some signer \<Rightarrow>
               if signer \<noteq> address_this E then Inl InvalidSignature
               else
                 let n = length (calls signedBatch)
                 in case forwardCalls ext (calls signedBatch) 0 (replicate n []) (world s1) of
                      Inl e \<Rightarrow> Inl e
                    | Inr (results, w') \<Rightarrow>
                        Inr (results,
                             emit (BatchExecuted (address_this E) (msg_sender E)
                                     (calls signedBatch) results)
                               (s1\<lparr>world := w'\<rparr>)))"

text \<open>The contract without signatures (batchDelegator.sol): it forwards any batch.\<close>

definition executeBatch_unsigned ::
  "'w extcall \<Rightarrow> env \<Rightarrow> call list \<Rightarrow> 'w chain \<Rightarrow> error + bytes list \<times> 'w chain" where
  "executeBatch_unsigned ext E cs s =
     (let n = length cs
      in case forwardCalls ext cs 0 (replicate n []) (world s) of
           Inl e \<Rightarrow> Inl e
         | Inr (results, w') \<Rightarrow>
             Inr (results, emit (BatchExecuted_unsigned (msg_sender E) cs results) (s\<lparr>world := w'\<rparr>)))"

subsection \<open>Invocations\<close>

text \<open>
  An invocation of an external function is atomic: when the function reverts, every
  change it made so far (storage, events, the effects of the calls already forwarded) is
  discarded and the state is the one before the invocation; when it returns, the changes
  stay.
\<close>

definition transact ::
  "('w chain \<Rightarrow> error + 'a \<times> 'w chain) \<Rightarrow> 'w chain \<Rightarrow> (error + 'a) \<times> 'w chain" where
  "transact f s = (case f s of Inl e \<Rightarrow> (Inl e, s) | Inr (r, s') \<Rightarrow> (Inr r, s'))"

datatype operation =
  Initialize address
| SetAdmin signedAdminChange
| UpdateCallers signedCallerUpdate
| ExecuteBatch signedBatch

datatype returned = Nothing | Results "bytes list"

fun perform ::
  "crypto \<Rightarrow> 'w extcall \<Rightarrow> env \<Rightarrow> operation \<Rightarrow> 'w chain \<Rightarrow> error + returned \<times> 'w chain" where
  "perform K ext E (Initialize a) s = map_sum id (map_prod (\<lambda>_. Nothing) id) (initialize a s)"
| "perform K ext E (SetAdmin c) s = map_sum id (map_prod (\<lambda>_. Nothing) id) (setAdmin K E c s)"
| "perform K ext E (UpdateCallers u) s =
     map_sum id (map_prod (\<lambda>_. Nothing) id) (updateCallers K E u s)"
| "perform K ext E (ExecuteBatch b) s = map_sum id (map_prod Results id) (executeBatch K ext E b s)"

definition invoke ::
  "crypto \<Rightarrow> 'w extcall \<Rightarrow> env \<Rightarrow> operation \<Rightarrow> 'w chain \<Rightarrow> (error + returned) \<times> 'w chain" where
  "invoke K ext E op s = transact (perform K ext E op) s"

fun opNonce :: "operation \<Rightarrow> uint256 option" where
  "opNonce (Initialize a) = None"
| "opNonce (SetAdmin c) = Some (nonce c)"
| "opNonce (UpdateCallers u) = Some (nonce u)"
| "opNonce (ExecuteBatch b) = Some (nonce b)"

text \<open>A history: invocations one after the other, each in its own block environment.\<close>

fun run :: "crypto \<Rightarrow> 'w extcall \<Rightarrow> (env \<times> operation) list \<Rightarrow> 'w chain \<Rightarrow> 'w chain" where
  "run K ext [] s = s"
| "run K ext ((E, op) # rest) s = run K ext rest (snd (invoke K ext E op s))"

subsection \<open>What an operation presents, for the statements\<close>

fun opDeadline :: "operation \<Rightarrow> uint256 option" where
  "opDeadline (Initialize a) = None"
| "opDeadline (SetAdmin c) = Some (deadline c)"
| "opDeadline (UpdateCallers u) = Some (deadline u)"
| "opDeadline (ExecuteBatch b) = Some (deadline b)"

fun arraysMatch :: "operation \<Rightarrow> bool" where
  "arraysMatch (UpdateCallers u) = (length (callers u) = length (isAdding u))"
| "arraysMatch _ = True"


text \<open>The address recovered from an operation's signature and its prefix-wrapped hash.\<close>

fun opSigner :: "crypto \<Rightarrow> operation \<Rightarrow> address option" where
  "opSigner K (Initialize a) = None"
| "opSigner K (SetAdmin c) =
     ECDSA_recover K
       (toEthSignedMessageHash K (getAdminChangeHash K (newAdmin c) (nonce c) (deadline c)))
       (signature c)"
| "opSigner K (UpdateCallers u) =
     ECDSA_recover K
       (toEthSignedMessageHash K
          (getCallerUpdateHash K (callers u) (isAdding u) (nonce u) (deadline u)))
       (signature u)"
| "opSigner K (ExecuteBatch b) =
     ECDSA_recover K
       (toEthSignedMessageHash K (getBatchHash K (calls b) (nonce b) (deadline b)))
       (signature b)"

definition notExpired :: "env \<Rightarrow> operation \<Rightarrow> bool" where
  "notExpired E op =
     (case opDeadline op of None \<Rightarrow> True | Some d \<Rightarrow> \<not> block_timestamp E > d)"

definition nonceUnused :: "operation \<Rightarrow> 'w chain \<Rightarrow> bool" where
  "nonceUnused op s =
     (case opNonce op of None \<Rightarrow> True | Some n \<Rightarrow> \<not> usedNonces (storage s) n)"




text \<open>
  The calls of a batch made one after the other, each in the world the one before it
  left: the success flag and the return data of each. A call is accepted when it
  reports success and its return data is empty or decodes to \<open>true\<close>; otherwise
  \<open>rejection\<close> is the error it stops the batch with.
\<close>

fun outcomes :: "'w extcall \<Rightarrow> call list \<Rightarrow> 'w \<Rightarrow> (bool \<times> bytes) list" where
  "outcomes ext [] w = []"
| "outcomes ext (c # cs) w = (case ext c w of (ok, ret, w') \<Rightarrow> (ok, ret) # outcomes ext cs w')"



text \<open>The error of the \<open>require\<close> that stops the loop at a call: \<open>ok\<close> is the call's flag.\<close>

definition callError :: "bool \<Rightarrow> error" where
  "callError ok =
     (if \<not> ok then RequireFailed ''BatchDelegator: call failed''
      else RequireFailed ''BatchDelegator: call returned false'')"

section \<open>Concrete data for the instances\<close>

text \<open>
  A toy scheme of signatures: the signature of the signer \<open>a\<close> (one byte) over any hash is
  the byte \<open>a\<close>, and the empty signature is malformed. A toy world: the total value sent
  so far; a call to the address 0 fails, and a call to another address succeeds, moves
  its value and returns its own call data.
\<close>

definition K_test :: crypto where
  "K_test =
     \<lparr>keccak256 = (\<lambda>bs. word_of_nat (length bs)),
      ECDSA_recover = (\<lambda>h sg. case sg of [] \<Rightarrow> None | b # _ \<Rightarrow> Some (ucast b))\<rparr>"

definition ext_test :: "nat extcall" where
  "ext_test c w = (if target c = 0 then (False, [], w) else (True, data c, w + unat (val c)))"

definition E_test :: env where
  "E_test = \<lparr>block_timestamp = 1000, msg_sender = 0xC, address_this = 0xE\<rparr>"

text \<open>Admin \<open>0xA\<close>, one allowed caller \<open>0xB\<close>, the nonce 1 used.\<close>

definition s_test :: "nat chain" where
  "s_test =
     \<lparr>storage = \<lparr>admin = 0xA, allowedCallers = (\<lambda>a. a = 0xB), usedNonces = (\<lambda>n. n = 1),
                  initialized = True\<rparr>,
      logs = [], world = 0\<rparr>"

definition s_fresh :: "nat chain" where
  "s_fresh =
     \<lparr>storage = \<lparr>admin = 0, allowedCallers = (\<lambda>a. False), usedNonces = (\<lambda>n. False),
                  initialized = False\<rparr>,
      logs = [], world = 0\<rparr>"

definition pay :: "address \<Rightarrow> uint256 \<Rightarrow> bytes \<Rightarrow> call" where
  "pay t v d = \<lparr>target = t, val = v, data = d\<rparr>"

definition batch_of :: "uint256 \<Rightarrow> uint256 \<Rightarrow> byte \<Rightarrow> call list \<Rightarrow> signedBatch" where
  "batch_of n d signer cs = \<lparr>nonce = n, deadline = d, signature = [signer], calls = cs\<rparr>"

definition change_of :: "uint256 \<Rightarrow> uint256 \<Rightarrow> byte \<Rightarrow> address \<Rightarrow> signedAdminChange" where
  "change_of n d signer a = \<lparr>nonce = n, deadline = d, signature = [signer], newAdmin = a\<rparr>"

definition update_of ::
  "uint256 \<Rightarrow> uint256 \<Rightarrow> byte \<Rightarrow> address list \<Rightarrow> bool list \<Rightarrow> signedCallerUpdate" where
  "update_of n d signer cs bs =
     \<lparr>nonce = n, deadline = d, signature = [signer], callers = cs, isAdding = bs\<rparr>"



section \<open>The authorization hash: the scripts against the specification\<close>

subsection \<open>Integers: \<open>toBeHex\<close> read by \<open>getBytes\<close> is the minimal big-endian string\<close>







subsection \<open>RLP: ethers' encoder on the three fields\<close>











subsection \<open>The authorization hash\<close>




section \<open>The batch executor\<close>

subsection \<open>Invocations and the forwarding loop\<close>

lemma invoke_Inl_iff:
  "invoke K ext E op s = (Inl e, s') \<longleftrightarrow> perform K ext E op s = Inl e \<and> s' = s"
  by (auto simp: invoke_def transact_def split: sum.splits)


lemma forwardCalls_append:
  "forwardCalls ext (pre @ rest) i res w =
     (case forwardCalls ext pre i res w of
        Inl e \<Rightarrow> Inl e
      | Inr (res', w') \<Rightarrow> forwardCalls ext rest (i + length pre) res' w')"
  by (induction pre arbitrary: i res w) (auto split: prod.splits option.splits sum.splits)

lemma forwardCalls_fails:
  assumes "forwardCalls ext pre i res w0 = Inr (rs, w)"
    and "ext c w = (ok, ret, w')"
    and "\<not> ok \<or> (ret \<noteq> [] \<and> abi_decode_bool ret = Some False)"
  shows "forwardCalls ext (pre @ c # post) i res w0 = Inl (callError ok)"
  using assms by (auto simp: forwardCalls_append callError_def)

lemma forwardCalls_error:
  "forwardCalls ext cs i res w = Inl e \<Longrightarrow>
   e = RequireFailed ''BatchDelegator: call failed''
   \<or> e = RequireFailed ''BatchDelegator: call returned false'' \<or> e = AbiDecodeFailed"
  by (induction cs arbitrary: i res w) (auto split: prod.splits option.splits if_splits)

subsection \<open>Atomic abort of a batch\<close>

text \<open>
  C1. A batch passes the checks of \<open>executeBatch\<close> (deadline, nonce, signer among the
  allowed callers); its calls before \<open>c\<close> go through, and \<open>c\<close> fails: the low-level call
  reports failure, or its return data is not empty and decodes to \<open>false\<close>. Then
  \<open>executeBatch\<close> reverts, and the invocation leaves the state as it was before it:
  storage, events and world, so nothing of the calls before \<open>c\<close> stays and the nonce is
  still unused. The contract without signatures reverts on the same calls in the same way.
\<close>

theorem executeBatch_atomic:
  assumes "notExpired E (ExecuteBatch b)"
    and "nonceUnused (ExecuteBatch b) s"
    and "opSigner K (ExecuteBatch b) = Some signer"
    and "allowedCallers (storage s) signer"
    and "calls b = pre @ c # post"
    and "forwardCalls ext pre 0 (replicate (length (calls b)) []) (world s) = Inr (rs, w)"
    and "ext c w = (ok, ret, w')"
    and "\<not> ok \<or> (ret \<noteq> [] \<and> abi_decode_bool ret = Some False)"
  shows "executeBatch K ext E b s = Inl (callError ok)
    \<and> invoke K ext E (ExecuteBatch b) s = (Inl (callError ok), s)
    \<and> \<not> usedNonces (storage (snd (invoke K ext E (ExecuteBatch b) s))) (nonce b)
    \<and> transact (executeBatch_unsigned ext E (calls b)) s = (Inl (callError ok), s)"
proof -
  have f: "forwardCalls ext (calls b) 0 (replicate (length (calls b)) []) (world s)
      = Inl (callError ok)"
    using forwardCalls_fails [OF assms(6) assms(7) assms(8)] assms(5) by simp
  have e: "executeBatch K ext E b s = Inl (callError ok)"
    using assms(1-4) f
    by (simp add: executeBatch_def markNonce_def Let_def notExpired_def nonceUnused_def)
  then have i: "invoke K ext E (ExecuteBatch b) s = (Inl (callError ok), s)"
    by (simp add: invoke_Inl_iff)
  have u: "transact (executeBatch_unsigned ext E (calls b)) s = (Inl (callError ok), s)"
    using f by (simp add: executeBatch_unsigned_def transact_def)
  show ?thesis using e i u assms(2) by (simp add: nonceUnused_def)
qed

text \<open>The instance: a batch of three calls whose second call fails.\<close>

theorem executeBatch_atomic_witness:
  "invoke K_test ext_test E_test
      (ExecuteBatch (batch_of 7 1000 0xB [pay 1 5 [], pay 0 6 [], pay 2 7 []])) s_test
     = (Inl (RequireFailed ''BatchDelegator: call failed''), s_test)
   \<and> \<not> usedNonces (storage s_test) 7"
proof -
  let ?b = "batch_of 7 1000 0xB [pay 1 5 [], pay 0 6 [], pay 2 7 []]"
  have 1: "notExpired E_test (ExecuteBatch ?b)"
    by (simp add: notExpired_def E_test_def batch_of_def)
  have 2: "nonceUnused (ExecuteBatch ?b) s_test"
    by (simp add: nonceUnused_def s_test_def batch_of_def)
  have 3: "opSigner K_test (ExecuteBatch ?b) = Some 0xB"
    by (simp add: K_test_def batch_of_def)
  have 4: "allowedCallers (storage s_test) 0xB" by (simp add: s_test_def)
  have 5: "calls ?b = [pay 1 5 []] @ pay 0 6 [] # [pay 2 7 []]" by (simp add: batch_of_def)
  have 6: "forwardCalls ext_test [pay 1 5 []] 0 (replicate (length (calls ?b)) []) (world s_test)
     = Inr ([[], [], []], 5)"
    by (simp add: ext_test_def pay_def batch_of_def s_test_def)
  have 7: "ext_test (pay 0 6 []) 5 = (False, [], 5)" by (simp add: ext_test_def pay_def)
  have 8: "\<not> False \<or> (([]::bytes) \<noteq> [] \<and> abi_decode_bool [] = Some False)" by simp
  show ?thesis
    using executeBatch_atomic [OF 1 2 3 4 5 6 7 8] 2
    by (simp add: callError_def batch_of_def nonceUnused_def)
qed

subsection \<open>What each operation keeps and changes\<close>

lemma setCallers_frame [simp]:
  "usedNonces (storage (setCallers cs bs s)) = usedNonces (storage s)"
  "initialized (storage (setCallers cs bs s)) = initialized (storage s)"
  "admin (storage (setCallers cs bs s)) = admin (storage s)"
  "world (setCallers cs bs s) = world s"
  by (induction cs bs s rule: setCallers.induct) (simp_all add: emit_def)

lemma setCallers_adds:
  "(a, False) \<notin> set (zip cs bs) \<Longrightarrow>
   (a, True) \<in> set (zip cs bs) \<or> allowedCallers (storage s) a \<Longrightarrow>
   allowedCallers (storage (setCallers cs bs s)) a"
proof (induction cs bs s rule: setCallers.induct)
  case (1 c cs b bs s)
  then show ?case by (auto simp: emit_def)
qed simp_all

lemma perform_expired:
  "opDeadline op = Some d \<Longrightarrow> block_timestamp E > d \<Longrightarrow> arraysMatch op \<Longrightarrow>
   perform K ext E op s = Inl DeadlineExpired"
  by (cases op) (simp_all add: setAdmin_def updateCallers_def executeBatch_def)

lemma perform_not_expired:
  "notExpired E op \<Longrightarrow> perform K ext E op s \<noteq> Inl DeadlineExpired"
proof (cases op)
  case (ExecuteBatch b)
  assume "notExpired E op"
  then show ?thesis
    using ExecuteBatch
    by (auto simp: notExpired_def executeBatch_def markNonce_def Let_def
        split: option.splits sum.splits prod.splits dest: forwardCalls_error)
qed (simp_all add: notExpired_def initialize_def setAdmin_def updateCallers_def
      markNonce_def Let_def split: option.splits)

lemma perform_used:
  "opNonce op = Some n \<Longrightarrow> usedNonces (storage s) n \<Longrightarrow> arraysMatch op \<Longrightarrow>
   notExpired E op \<Longrightarrow> perform K ext E op s = Inl NonceAlreadyUsed"
  by (cases op) (simp_all add: notExpired_def setAdmin_def updateCallers_def executeBatch_def)

lemma perform_used_fails:
  "opNonce op = Some n \<Longrightarrow> usedNonces (storage s) n \<Longrightarrow> isl (perform K ext E op s)"
  by (cases op) (simp_all add: setAdmin_def updateCallers_def executeBatch_def)

lemma perform_marks:
  "perform K ext E op s = Inr (r, s') \<Longrightarrow> opNonce op = Some n \<Longrightarrow> usedNonces (storage s') n"
  by (cases op)
    (auto simp: setAdmin_def updateCallers_def executeBatch_def markNonce_def emit_def Let_def
      split: if_splits option.splits sum.splits prod.splits)

lemma perform_keeps_nonces:
  "perform K ext E op s = Inr (r, s') \<Longrightarrow> usedNonces (storage s) n \<Longrightarrow>
   usedNonces (storage s') n"
  by (cases op)
    (auto simp: initialize_def setAdmin_def updateCallers_def executeBatch_def markNonce_def
      emit_def Let_def split: if_splits option.splits sum.splits prod.splits)

lemma perform_keeps_initialized:
  "perform K ext E op s = Inr (r, s') \<Longrightarrow> initialized (storage s) \<Longrightarrow>
   initialized (storage s')"
  by (cases op)
    (auto simp: initialize_def setAdmin_def updateCallers_def executeBatch_def markNonce_def
      emit_def Let_def split: if_splits option.splits sum.splits prod.splits)

lemma invoke_failed: "isl (fst (invoke K ext E op s)) \<Longrightarrow> snd (invoke K ext E op s) = s"
  by (auto simp: invoke_def transact_def split: sum.splits)

lemma invoke_marks:
  "fst (invoke K ext E op s) = Inr r \<Longrightarrow> opNonce op = Some n \<Longrightarrow>
   usedNonces (storage (snd (invoke K ext E op s))) n"
  by (cases "perform K ext E op s")
    (auto simp: invoke_def transact_def dest: perform_marks)

lemma invoke_keeps_nonces:
  "usedNonces (storage s) n \<Longrightarrow> usedNonces (storage (snd (invoke K ext E op s))) n"
  by (cases "perform K ext E op s")
    (auto simp: invoke_def transact_def dest: perform_keeps_nonces)

lemma invoke_keeps_initialized:
  "initialized (storage s) \<Longrightarrow> initialized (storage (snd (invoke K ext E op s)))"
  by (cases "perform K ext E op s")
    (auto simp: invoke_def transact_def dest: perform_keeps_initialized)

lemma run_keeps_nonces:
  "usedNonces (storage s) n \<Longrightarrow> usedNonces (storage (run K ext h s)) n"
  by (induction h arbitrary: s) (auto simp: invoke_keeps_nonces)

lemma run_keeps_initialized:
  "initialized (storage s) \<Longrightarrow> initialized (storage (run K ext h s))"
  by (induction h arbitrary: s) (auto simp: invoke_keeps_initialized)

lemma timestamp_pred_less: "t \<noteq> 0 \<Longrightarrow> t - 1 < t" for t :: uint256
  by (metis diff_0_right less_eq_dec_iff sub_wrap)

subsection \<open>Nonces\<close>

text \<open>
  C2, as the contract has it. Once an invocation of \<open>setAdmin\<close>, \<open>updateCallers\<close> or
  \<open>executeBatch\<close> with the nonce \<open>n\<close> has succeeded, then after any history \<open>h\<close> of further
  invocations every invocation of one of the three that presents \<open>n\<close>, whatever its
  payload, fails with \<open>NonceAlreadyUsed\<close>, provided it reaches the nonce check: its
  deadline has not expired and, for \<open>updateCallers\<close>, its arrays have the same length. An
  invocation that fails changes nothing, so it does not use up its nonce.
\<close>

theorem nonce_single_use:
  assumes "fst (invoke K ext E op s) = Inr r"
    and "opNonce op = Some n"
    and "opNonce op' = Some n"
    and "arraysMatch op'"
    and "notExpired E' op'"
  shows "invoke K ext E' op' (run K ext h (snd (invoke K ext E op s)))
      = (Inl NonceAlreadyUsed, run K ext h (snd (invoke K ext E op s)))
    \<and> (\<forall>E0 op0 s0. isl (fst (invoke K ext E0 op0 (s0 :: 'w chain)))
          \<longrightarrow> snd (invoke K ext E0 op0 s0) = s0)"
proof -
  have "usedNonces (storage (snd (invoke K ext E op s))) n"
    using assms(1,2) by (rule invoke_marks)
  then have "usedNonces (storage (run K ext h (snd (invoke K ext E op s)))) n"
    by (rule run_keeps_nonces)
  then have "perform K ext E' op' (run K ext h (snd (invoke K ext E op s)))
      = Inl NonceAlreadyUsed"
    using assms(3-5) by (simp add: perform_used)
  then show ?thesis by (simp add: invoke_Inl_iff invoke_failed)
qed

text \<open>
  The instance: \<open>setAdmin\<close> with the nonce 7 succeeds; after an \<open>updateCallers\<close> with the
  nonce 8, a batch that presents the nonce 7 fails with \<open>NonceAlreadyUsed\<close>.
\<close>

theorem nonce_single_use_witness:
  "fst (invoke K_test ext_test E_test (SetAdmin (change_of 7 1000 0xA 0xD)) s_test) = Inr Nothing
   \<and> fst (invoke K_test ext_test E_test (ExecuteBatch (batch_of 7 2000 0xB [pay 1 5 []]))
        (run K_test ext_test [(E_test, UpdateCallers (update_of 8 1000 0xD [0xF] [True]))]
           (snd (invoke K_test ext_test E_test (SetAdmin (change_of 7 1000 0xA 0xD)) s_test))))
     = Inl NonceAlreadyUsed"
proof -
  have 1: "fst (invoke K_test ext_test E_test (SetAdmin (change_of 7 1000 0xA 0xD)) s_test)
      = Inr Nothing"
    by (simp add: invoke_def transact_def setAdmin_def K_test_def E_test_def s_test_def
        change_of_def markNonce_def emit_def)
  have 2: "opNonce (SetAdmin (change_of 7 1000 0xA 0xD)) = Some 7" by (simp add: change_of_def)
  have 3: "opNonce (ExecuteBatch (batch_of 7 2000 0xB [pay 1 5 []])) = Some 7"
    by (simp add: batch_of_def)
  have 4: "arraysMatch (ExecuteBatch (batch_of 7 2000 0xB [pay 1 5 []]))" by simp
  have 5: "notExpired E_test (ExecuteBatch (batch_of 7 2000 0xB [pay 1 5 []]))"
    by (simp add: notExpired_def E_test_def batch_of_def)
  show ?thesis
    using nonce_single_use [OF 1 2 3 4 5,
        of "[(E_test, UpdateCallers (update_of 8 1000 0xD [0xF] [True]))]"] 1
    by simp
qed

text \<open>
  C2 as stated fails twice. A \<open>setAdmin\<close> with the nonce 7 and the signature of another
  key fails with \<open>InvalidSignature\<close> after it has marked the nonce; the next \<open>setAdmin\<close>
  with the nonce 7, signed by the admin, succeeds. And after a \<open>setAdmin\<close> with the nonce
  7 that succeeded, an invocation with the nonce 7 whose deadline has passed fails with
  \<open>DeadlineExpired\<close>.
\<close>

theorem nonce_single_use_counterexample:
  "fst (invoke K_test ext_test E_test (SetAdmin (change_of 7 1000 0xB 0xD)) s_test)
     = Inl InvalidSignature
   \<and> fst (invoke K_test ext_test E_test (SetAdmin (change_of 7 1000 0xA 0xD))
        (snd (invoke K_test ext_test E_test (SetAdmin (change_of 7 1000 0xB 0xD)) s_test)))
     = Inr Nothing
   \<and> fst (invoke K_test ext_test E_test (SetAdmin (change_of 7 999 0xD 0xA))
        (snd (invoke K_test ext_test E_test (SetAdmin (change_of 7 1000 0xA 0xD)) s_test)))
     = Inl DeadlineExpired"
  by (simp add: invoke_def transact_def setAdmin_def K_test_def E_test_def s_test_def
      change_of_def markNonce_def emit_def)

text \<open>
  C10. The three operations mark and check the one map \<open>usedNonces\<close>: a nonce that is used
  stays used through every history of invocations, and once an invocation of any of the
  three with the nonce \<open>n\<close> has succeeded, \<open>n\<close> is used after every later history and no
  invocation of any of the three that presents \<open>n\<close> succeeds again.
\<close>

theorem usedNonces_shared_monotone:
  "(usedNonces (storage s) m \<longrightarrow> usedNonces (storage (run K ext h s)) m)
   \<and> (fst (invoke K ext E op s) = Inr r \<and> opNonce op = Some n \<longrightarrow>
        usedNonces (storage (run K ext h' (snd (invoke K ext E op s)))) n
        \<and> (\<forall>E' op'. opNonce op' = Some n \<longrightarrow>
              isl (fst (invoke K ext E' op' (run K ext h' (snd (invoke K ext E op s)))))))"
proof (intro conjI impI allI)
  assume "usedNonces (storage s) m"
  then show "usedNonces (storage (run K ext h s)) m" by (rule run_keeps_nonces)
next
  assume a: "fst (invoke K ext E op s) = Inr r \<and> opNonce op = Some n"
  then have "usedNonces (storage (snd (invoke K ext E op s))) n"
    by (simp add: invoke_marks)
  then show u: "usedNonces (storage (run K ext h' (snd (invoke K ext E op s)))) n"
    by (rule run_keeps_nonces)
  fix E' op'
  assume "opNonce op' = Some n"
  then have "isl (perform K ext E' op' (run K ext h' (snd (invoke K ext E op s))))"
    using u by (rule perform_used_fails)
  then show "isl (fst (invoke K ext E' op' (run K ext h' (snd (invoke K ext E op s)))))"
    by (auto simp: invoke_def transact_def split: sum.splits)
qed

text \<open>
  The instance: the nonce 1 of the state stays used through a history; a batch with the
  nonce 7 succeeds, and then neither \<open>setAdmin\<close> nor \<open>updateCallers\<close> with the nonce 7 does.
\<close>

theorem usedNonces_shared_monotone_witness:
  "usedNonces (storage s_test) 1
   \<and> usedNonces (storage (run K_test ext_test
        [(E_test, ExecuteBatch (batch_of 7 1000 0xB [pay 1 5 []]))] s_test)) 1
   \<and> fst (invoke K_test ext_test E_test (ExecuteBatch (batch_of 7 1000 0xB [pay 1 5 []])) s_test)
       = Inr (Results [[]])
   \<and> isl (fst (invoke K_test ext_test E_test (SetAdmin (change_of 7 1000 0xA 0xD))
        (run K_test ext_test []
          (snd (invoke K_test ext_test E_test
                 (ExecuteBatch (batch_of 7 1000 0xB [pay 1 5 []])) s_test)))))
   \<and> isl (fst (invoke K_test ext_test E_test (UpdateCallers (update_of 7 1000 0xA [0xF] [True]))
        (run K_test ext_test []
          (snd (invoke K_test ext_test E_test
                 (ExecuteBatch (batch_of 7 1000 0xB [pay 1 5 []])) s_test)))))"
proof -
  let ?b = "ExecuteBatch (batch_of 7 1000 0xB [pay 1 5 []])"
  have 1: "usedNonces (storage s_test) 1" by (simp add: s_test_def)
  have 2: "fst (invoke K_test ext_test E_test ?b s_test) = Inr (Results [[]])"
    by (simp add: invoke_def transact_def executeBatch_def K_test_def E_test_def s_test_def
        batch_of_def markNonce_def emit_def ext_test_def pay_def)
  have 3: "opNonce ?b = Some 7" by (simp add: batch_of_def)
  have 4: "opNonce (SetAdmin (change_of 7 1000 0xA 0xD)) = Some 7" by (simp add: change_of_def)
  have 5: "opNonce (UpdateCallers (update_of 7 1000 0xA [0xF] [True])) = Some 7"
    by (simp add: update_of_def)
  note t = usedNonces_shared_monotone [of s_test 1 K_test ext_test
      "[(E_test, ExecuteBatch (batch_of 7 1000 0xB [pay 1 5 []]))]" E_test ?b
      "Results [[]]" 7 "[]"]
  show ?thesis using t 1 2 3 4 5 by blast
qed

subsection \<open>Deadlines\<close>

text \<open>
  C5, as the contract has it. An invocation of \<open>setAdmin\<close>, \<open>updateCallers\<close> or
  \<open>executeBatch\<close> whose deadline is the current time does not fail with
  \<open>DeadlineExpired\<close>. One whose deadline is the current time minus one fails with
  \<open>DeadlineExpired\<close>; for \<open>updateCallers\<close> this needs arrays of the same length, the check
  that comes before the deadline.
\<close>

theorem deadline_boundary:
  assumes "opDeadline op = Some d"
  shows "(d = block_timestamp E \<longrightarrow> fst (invoke K ext E op s) \<noteq> Inl DeadlineExpired)
    \<and> (block_timestamp E \<noteq> 0 \<and> d = block_timestamp E - 1 \<and> arraysMatch op
          \<longrightarrow> invoke K ext E op s = (Inl DeadlineExpired, s))"
proof (intro conjI impI)
  assume "d = block_timestamp E"
  then have "notExpired E op" using assms by (simp add: notExpired_def)
  then have "perform K ext E op s \<noteq> Inl DeadlineExpired" by (rule perform_not_expired)
  then show "fst (invoke K ext E op s) \<noteq> Inl DeadlineExpired"
    by (auto simp: invoke_def transact_def split: sum.splits)
next
  assume a: "block_timestamp E \<noteq> 0 \<and> d = block_timestamp E - 1 \<and> arraysMatch op"
  then have "block_timestamp E > d" by (simp add: timestamp_pred_less)
  then have "perform K ext E op s = Inl DeadlineExpired"
    using assms a by (simp add: perform_expired)
  then show "invoke K ext E op s = (Inl DeadlineExpired, s)" by (simp add: invoke_Inl_iff)
qed

text \<open>
  The instances, at the time 1000: a batch with the deadline 1000 succeeds, and
  \<open>setAdmin\<close>, \<open>updateCallers\<close> and \<open>executeBatch\<close> with the deadline 999 fail with
  \<open>DeadlineExpired\<close>.
\<close>

theorem deadline_boundary_witness:
  "fst (invoke K_test ext_test E_test (ExecuteBatch (batch_of 7 1000 0xB [pay 1 5 []])) s_test)
     \<noteq> Inl DeadlineExpired
   \<and> invoke K_test ext_test E_test (ExecuteBatch (batch_of 7 999 0xB [pay 1 5 []])) s_test
     = (Inl DeadlineExpired, s_test)
   \<and> invoke K_test ext_test E_test (SetAdmin (change_of 7 999 0xA 0xD)) s_test
     = (Inl DeadlineExpired, s_test)
   \<and> invoke K_test ext_test E_test (UpdateCallers (update_of 7 999 0xA [0xF] [True])) s_test
     = (Inl DeadlineExpired, s_test)"
proof -
  have t: "block_timestamp E_test = 1000" "block_timestamp E_test \<noteq> 0"
    "block_timestamp E_test - 1 = 999"
    by (simp_all add: E_test_def)
  have 1: "opDeadline (ExecuteBatch (batch_of 7 1000 0xB [pay 1 5 []])) = Some 1000"
    by (simp add: batch_of_def)
  have 2: "opDeadline (ExecuteBatch (batch_of 7 999 0xB [pay 1 5 []])) = Some 999"
    by (simp add: batch_of_def)
  have 3: "opDeadline (SetAdmin (change_of 7 999 0xA 0xD)) = Some 999"
    by (simp add: change_of_def)
  have 4: "opDeadline (UpdateCallers (update_of 7 999 0xA [0xF] [True])) = Some 999"
    by (simp add: update_of_def)
  have 5: "arraysMatch (UpdateCallers (update_of 7 999 0xA [0xF] [True]))"
    by (simp add: update_of_def)
  show ?thesis
    using deadline_boundary [OF 1, of E_test K_test ext_test s_test]
      deadline_boundary [OF 2, of E_test K_test ext_test s_test]
      deadline_boundary [OF 3, of E_test K_test ext_test s_test]
      deadline_boundary [OF 4, of E_test K_test ext_test s_test] t 5
    by simp
qed

text \<open>
  C5 as stated fails for \<open>updateCallers\<close>: with arrays of different lengths and the
  deadline 999 at the time 1000, the error is \<open>ArrayLengthMismatch\<close>.
\<close>

theorem deadline_boundary_counterexample:
  "block_timestamp E_test = 1000
   \<and> deadline (update_of 7 999 0xA [0xF] []) = 1000 - 1
   \<and> fst (invoke K_test ext_test E_test (UpdateCallers (update_of 7 999 0xA [0xF] [])) s_test)
     = Inl ArrayLengthMismatch"
  by (simp add: invoke_def transact_def updateCallers_def E_test_def update_of_def)

subsection \<open>Initialization\<close>

text \<open>
  C7. In a state that is not initialized, \<open>initialize\<close> succeeds for any sender and any
  address: it sets the admin and the flag. From then on, after any history of
  invocations, every \<open>initialize\<close> fails with \<open>AlreadyInitialized\<close> and leaves the state,
  and so the admin, as it is.
\<close>

theorem initialize_once:
  assumes "\<not> initialized (storage s)"
  shows "fst (invoke K ext E (Initialize a) s) = Inr Nothing
    \<and> admin (storage (snd (invoke K ext E (Initialize a) s))) = a
    \<and> initialized (storage (snd (invoke K ext E (Initialize a) s)))
    \<and> (\<forall>h E' a'.
          invoke K ext E' (Initialize a') (run K ext h (snd (invoke K ext E (Initialize a) s)))
          = (Inl AlreadyInitialized, run K ext h (snd (invoke K ext E (Initialize a) s))))"
proof -
  let ?s1 = "snd (invoke K ext E (Initialize a) s)"
  have first: "fst (invoke K ext E (Initialize a) s) = Inr Nothing"
    "admin (storage ?s1) = a" "initialized (storage ?s1)"
    using assms by (simp_all add: invoke_def transact_def initialize_def emit_def)
  have "invoke K ext E' (Initialize a') (run K ext h ?s1)
      = (Inl AlreadyInitialized, run K ext h ?s1)" for h E' a'
  proof -
    have "initialized (storage (run K ext h ?s1))"
      using first(3) by (rule run_keeps_initialized)
    then show ?thesis by (simp add: invoke_Inl_iff initialize_def)
  qed
  then show ?thesis using first by simp
qed

text \<open>
  The instance: the first \<open>initialize\<close> sets the admin \<open>0xA\<close>; after a \<open>setAdmin\<close> to \<open>0xD\<close>,
  \<open>initialize\<close> fails and the admin is still \<open>0xD\<close>.
\<close>

theorem initialize_once_witness:
  "\<not> initialized (storage s_fresh)
   \<and> fst (invoke K_test ext_test E_test (Initialize 0xA) s_fresh) = Inr Nothing
   \<and> admin (storage (snd (invoke K_test ext_test E_test (Initialize 0xA) s_fresh))) = 0xA
   \<and> fst (invoke K_test ext_test E_test (Initialize 0xB)
        (run K_test ext_test [(E_test, SetAdmin (change_of 7 1000 0xA 0xD))]
          (snd (invoke K_test ext_test E_test (Initialize 0xA) s_fresh))))
     = Inl AlreadyInitialized
   \<and> admin (storage (snd (invoke K_test ext_test E_test (Initialize 0xB)
        (run K_test ext_test [(E_test, SetAdmin (change_of 7 1000 0xA 0xD))]
          (snd (invoke K_test ext_test E_test (Initialize 0xA) s_fresh)))))) = 0xD"
proof -
  have 1: "\<not> initialized (storage s_fresh)" by (simp add: s_fresh_def)
  have 2: "admin (storage (run K_test ext_test [(E_test, SetAdmin (change_of 7 1000 0xA 0xD))]
          (snd (invoke K_test ext_test E_test (Initialize 0xA) s_fresh)))) = 0xD"
    by (simp add: invoke_def transact_def initialize_def setAdmin_def K_test_def E_test_def
        s_fresh_def change_of_def markNonce_def emit_def)
  note t = initialize_once [OF 1, where K = K_test and ext = ext_test and E = E_test
      and a = "0xA"]
  from t have 3:
    "invoke K_test ext_test E_test (Initialize 0xB)
        (run K_test ext_test [(E_test, SetAdmin (change_of 7 1000 0xA 0xD))]
          (snd (invoke K_test ext_test E_test (Initialize 0xA) s_fresh)))
     = (Inl AlreadyInitialized,
        run K_test ext_test [(E_test, SetAdmin (change_of 7 1000 0xA 0xD))]
          (snd (invoke K_test ext_test E_test (Initialize 0xA) s_fresh)))"
    by blast
  show ?thesis using t 1 2 3 by (simp del: run.simps)
qed

subsection \<open>The admin\<close>






text \<open>
  In an initialized state every \<open>initialize\<close> fails, so there a history sets the admin
  again only by a \<open>setAdmin\<close> that succeeds.
\<close>

lemma initialize_refused:
  "initialized (storage s) \<Longrightarrow>
   invoke K ext E (Initialize a) s = (Inl AlreadyInitialized, s)"
  by (simp add: invoke_Inl_iff initialize_def)



subsection \<open>The allowed callers\<close>

lemma executeBatch_allowed:
  assumes "notExpired E (ExecuteBatch b)" "nonceUnused (ExecuteBatch b) s"
    and "opSigner K (ExecuteBatch b) = Some signer" "allowedCallers (storage s) signer"
  shows "fst (invoke K ext E (ExecuteBatch b) s) =
     (case forwardCalls ext (calls b) 0 (replicate (length (calls b)) []) (world s) of
        Inl e \<Rightarrow> Inl e
      | Inr (results, w') \<Rightarrow> Inr (Results results))"
  using assms
  by (simp add: invoke_def transact_def executeBatch_def notExpired_def nonceUnused_def
      markNonce_def Let_def split: sum.splits prod.splits)




lemma length_outcomes [simp]: "length (outcomes ext cs w) = length cs"
  by (induction cs arbitrary: w) (auto split: prod.splits)





subsection \<open>The return data of a forwarded call\<close>

lemma forwardCalls_isl:
  "isl (forwardCalls ext (calls b) 0 (replicate (length (calls b)) []) (world s)) \<Longrightarrow>
   isl (executeBatch K ext E b s) \<and> isl (executeBatch_self K ext E b s)
   \<and> isl (executeBatch_unsigned ext E (calls b) s)"
  by (auto simp: executeBatch_def executeBatch_self_def executeBatch_unsigned_def
      markNonce_def Let_def isl_def split: option.splits)

text \<open>
  C9, as the contract has it. The calls before \<open>c\<close> go through and \<open>c\<close> succeeds with
  return data that is not empty. The data is decoded as one boolean from its first 32
  bytes: the loop stops with a decoding error when there are fewer than 32 bytes or the
  first word is above 1, with \<open>call returned false\<close> when the first word is 0, and goes
  on to the next call when the first word is 1, whatever follows it. So every variant of
  \<open>executeBatch\<close> reverts unless the data has 32 bytes or more and its first word is 1.
\<close>

theorem return_data_decoding:
  assumes "calls b = pre @ c # post"
    and "forwardCalls ext pre 0 (replicate (length (calls b)) []) (world s) = Inr (rs, w)"
    and "ext c w = (True, ret, w')"
    and "ret \<noteq> []"
  shows "forwardCalls ext (calls b) 0 (replicate (length (calls b)) []) (world s) =
      (if length ret < 32 \<or> 1 < be_nat (take 32 ret) then Inl AbiDecodeFailed
       else if be_nat (take 32 ret) = 0
         then Inl (RequireFailed ''BatchDelegator: call returned false'')
       else forwardCalls ext post (Suc (length pre)) (rs[length pre := ret]) w')
    \<and> (length ret < 32 \<or> be_nat (take 32 ret) \<noteq> 1 \<longrightarrow>
          isl (executeBatch K ext E b s) \<and> isl (executeBatch_self K ext E b s)
          \<and> isl (executeBatch_unsigned ext E (calls b) s))"
proof -
  have loop: "forwardCalls ext (calls b) 0 (replicate (length (calls b)) []) (world s) =
      (if length ret < 32 \<or> 1 < be_nat (take 32 ret) then Inl AbiDecodeFailed
       else if be_nat (take 32 ret) = 0
         then Inl (RequireFailed ''BatchDelegator: call returned false'')
       else forwardCalls ext post (Suc (length pre)) (rs[length pre := ret]) w')"
    using assms by (auto simp: forwardCalls_append abi_decode_bool_def Let_def)
  have "isl (forwardCalls ext (calls b) 0 (replicate (length (calls b)) []) (world s))"
    if "length ret < 32 \<or> be_nat (take 32 ret) \<noteq> 1"
    using that by (auto simp: loop)
  then show ?thesis using loop forwardCalls_isl [of ext b s K E] by blast
qed

text \<open>
  The instances: return data of 32 zero bytes stops the batch with \<open>call returned
  false\<close>; the one byte 1 and the word 2 stop it with a decoding error.
\<close>

theorem return_data_decoding_witness:
  "fst (invoke K_test ext_test E_test
         (ExecuteBatch (batch_of 7 1000 0xB [pay 1 5 [], pay 2 0 (abi_bool False)])) s_test)
     = Inl (RequireFailed ''BatchDelegator: call returned false'')
   \<and> isl (executeBatch K_test ext_test E_test (batch_of 7 1000 0xB [pay 2 0 [1]]) s_test)
   \<and> isl (executeBatch_unsigned ext_test E_test [pay 2 0 (abi_uint256 2)] s_test)"
proof -
  let ?b0 = "batch_of 7 1000 0xB [pay 1 5 [], pay 2 0 (abi_bool False)]"
  let ?b1 = "batch_of 7 1000 0xB [pay 2 0 [1]]"
  let ?b2 = "batch_of 7 1000 0xB [pay 2 0 (abi_uint256 2)]"
  have v: "length (abi_bool False) = 32" "be_nat (take 32 (abi_bool False)) = 0"
    "abi_bool False \<noteq> []" "length (abi_uint256 2) = 32" "be_nat (take 32 (abi_uint256 2)) = 2"
    "abi_uint256 2 \<noteq> []"
    by code_simp+
  have a1: "calls ?b0 = [pay 1 5 []] @ pay 2 0 (abi_bool False) # []"
    by (simp add: batch_of_def)
  have a2: "forwardCalls ext_test [pay 1 5 []] 0 (replicate (length (calls ?b0)) [])
      (world s_test) = Inr ([[], []], 5)"
    by (simp add: batch_of_def ext_test_def pay_def s_test_def)
  have a3: "ext_test (pay 2 0 (abi_bool False)) 5 = (True, abi_bool False, 5)"
    by (simp add: ext_test_def pay_def)
  have a: "forwardCalls ext_test (calls ?b0) 0 (replicate (length (calls ?b0)) []) (world s_test)
      = Inl (RequireFailed ''BatchDelegator: call returned false'')"
    using return_data_decoding [OF a1 a2 a3 v(3), where K = K_test and E = E_test] v by simp
  have chk: "notExpired E_test (ExecuteBatch ?b0)" "nonceUnused (ExecuteBatch ?b0) s_test"
    "opSigner K_test (ExecuteBatch ?b0) = Some 0xB" "allowedCallers (storage s_test) 0xB"
    by (simp_all add: notExpired_def nonceUnused_def K_test_def E_test_def s_test_def
        batch_of_def)
  have r0: "fst (invoke K_test ext_test E_test (ExecuteBatch ?b0) s_test)
      = Inl (RequireFailed ''BatchDelegator: call returned false'')"
    using executeBatch_allowed [OF chk, of ext_test] a by simp
  have b1: "calls ?b1 = [] @ pay 2 0 [1] # []" by (simp add: batch_of_def)
  have b2: "forwardCalls ext_test [] 0 (replicate (length (calls ?b1)) []) (world s_test)
      = Inr ([[]], 0)"
    by (simp add: batch_of_def s_test_def)
  have b3: "ext_test (pay 2 0 [1]) 0 = (True, [1], 0)" by (simp add: ext_test_def pay_def)
  have r1: "isl (executeBatch K_test ext_test E_test ?b1 s_test)"
    using return_data_decoding [OF b1 b2 b3, where K = K_test and E = E_test] by simp
  have c1: "calls ?b2 = [] @ pay 2 0 (abi_uint256 2) # []" by (simp add: batch_of_def)
  have c2: "forwardCalls ext_test [] 0 (replicate (length (calls ?b2)) []) (world s_test)
      = Inr ([[]], 0)"
    by (simp add: batch_of_def s_test_def)
  have c3: "ext_test (pay 2 0 (abi_uint256 2)) 0 = (True, abi_uint256 2, 0)"
    by (simp add: ext_test_def pay_def)
  have r2: "isl (executeBatch_unsigned ext_test E_test [pay 2 0 (abi_uint256 2)] s_test)"
    using return_data_decoding [OF c1 c2 c3 v(6), where K = K_test and E = E_test] v
    by (simp add: batch_of_def)
  show ?thesis using r0 r1 r2 by simp
qed

text \<open>
  C9 as stated fails for a payload whose first word is 1: a call that succeeds and
  returns the encoding of the \<open>uint256\<close> 1 does not abort the batch.
\<close>

theorem return_data_decoding_counterexample:
  "fst (invoke K_test ext_test E_test
         (ExecuteBatch (batch_of 7 1000 0xB [pay 2 0 (abi_uint256 1)])) s_test)
     = Inr (Results [abi_uint256 1])"
proof -
  have v: "abi_uint256 1 \<noteq> []" "abi_decode_bool (abi_uint256 1) = Some True"
    by code_simp+
  show ?thesis
    using v
    by (simp add: invoke_def transact_def executeBatch_def K_test_def E_test_def s_test_def
        batch_of_def markNonce_def ext_test_def pay_def emit_def)
qed

subsection \<open>The contract that checks its own address\<close>

text \<open>
  In the second contract of the file the signer of a batch is compared with the
  contract's own address, and the error is \<open>InvalidSignature\<close>; it has no allowed callers.
\<close>

lemma executeBatch_self_gate:
  assumes "notExpired E (ExecuteBatch b)" "nonceUnused (ExecuteBatch b) s"
    and "opSigner K (ExecuteBatch b) = Some signer" "signer \<noteq> address_this E"
  shows "transact (executeBatch_self K ext E b) s = (Inl InvalidSignature, s)"
  using assms
  by (simp add: transact_def executeBatch_self_def notExpired_def nonceUnused_def
      markNonce_def Let_def)

subsection \<open>The two signed messages\<close>

text \<open>
  The scripts sign the hash of the authorization message itself; the contract recovers
  the signer from the hash of the prefixed message. The two hashed byte strings are never
  the same: the first starts with the byte \<open>0x05\<close>, the second with \<open>0x19\<close>.
\<close>

lemma authorizationMessage_not_prefixed:
  "authorizationMessage chainId delegatorAddr authNonce = Some m \<Longrightarrow>
   m \<noteq> signedMessagePrefix @ be_bytes 32 (unat h)"
  by (auto simp: authorizationMessage_def signedMessagePrefix_def
      split: bind_splits if_splits)

end
